theory Spec2Isabelle
  imports Complex_Main
begin

section \<open>The drawing engine of \<^verbatim>\<open>src/components/Canvas.tsx\<close>\<close>

text \<open>
  The canvas component keeps four mutable references (\<^verbatim>\<open>canvasRef\<close>, \<^verbatim>\<open>contextRef\<close>,
  \<^verbatim>\<open>isDrawing\<close>, \<^verbatim>\<open>lastPoint\<close>) and one piece of React state (\<^verbatim>\<open>canvasSize\<close>). Every
  callback of the component is embedded as a function on a record of these.

  Conventions of the embedding:
  \<^item> JavaScript numbers are idealised as \<^typ>\<open>real\<close>; rounding of IEEE doubles is not
    modelled.
  \<^item> \<^verbatim>\<open>Math.random()\<close> is an injected source \<open>rand :: nat \<Rightarrow> real\<close>: the \<open>k\<close>-th call
    of the program returns \<open>rand k\<close>, and the session counts the calls made so far in
    \<open>rng\<close>. The contract of \<^verbatim>\<open>Math.random\<close> is the predicate \<open>unit_source\<close>.
  \<^item> The 2D context is a record of the drawing state the source writes, the current path,
    and the list of paint operations that have reached the bitmap (\<open>rendered\<close>), oldest
    first. Rasterisation itself belongs to the browser and is not modelled.
  \<^item> A thrown \<^verbatim>\<open>TypeError\<close> is a value; a handler returns how it completed together
    with the references as it left them.
\<close>

subsection \<open>Props, points, events\<close>

datatype Tool = Brush | Splatter | Drip

record CanvasProps =
  color :: string
  tool :: Tool
  brushSize :: real

text \<open>The object \<^verbatim>\<open>{ x: number; y: number }\<close>.\<close>

record point =
  px :: real
  py :: real

text \<open>
  \<^verbatim>\<open>React.MouseEvent | React.TouchEvent\<close>: a mouse event carries \<^verbatim>\<open>clientX\<close>,
  \<^verbatim>\<open>clientY\<close>; a touch event carries the list \<^verbatim>\<open>touches\<close> of contacts, each with its own
  \<^verbatim>\<open>clientX\<close>, \<^verbatim>\<open>clientY\<close>.
\<close>

datatype event = MouseEvent real real | TouchEvent "(real \<times> real) list"

datatype error = TypeError

datatype completion = Normal | Thrown error

subsection \<open>The 2D rendering context\<close>

datatype path_cmd =
    MoveTo real real
  | LineTo real real
  | Arc real real real real real
  | Ellipse real real real real real real real
  | QuadraticCurveTo real real real real

text \<open>
  What \<^verbatim>\<open>stroke()\<close>, \<^verbatim>\<open>fill()\<close> and \<^verbatim>\<open>fillRect()\<close> put on the bitmap: the path (or the
  rectangle) in user coordinates, the style in force, and the scale transform in force.
\<close>

datatype paint =
    Stroke "path_cmd list" string real string string "real \<times> real"
  | Fill "path_cmd list" string "real \<times> real"
  | FillRect real real real real string "real \<times> real"

record context2d =
  strokeStyle :: string
  fillStyle :: string
  lineWidth :: real
  lineCap :: string
  lineJoin :: string
  transform :: "real \<times> real"
  path :: "path_cmd list"
  rendered :: "paint list"

text \<open>
  The state of a context whose canvas has just been given a width or a height: assigning
  either attribute clears the bitmap and resets the drawing state to its defaults.
\<close>

definition reset_context :: context2d where
  "reset_context =
     \<lparr> strokeStyle = ''#000000'', fillStyle = ''#000000'', lineWidth = 1,
       lineCap = ''butt'', lineJoin = ''miter'', transform = (1, 1),
       path = [], rendered = [] \<rparr>"

definition scale :: "real \<Rightarrow> real \<Rightarrow> context2d \<Rightarrow> context2d" where
  "scale sx sy ctx = ctx\<lparr>transform := (fst (transform ctx) * sx, snd (transform ctx) * sy)\<rparr>"

text \<open>The setter of \<^verbatim>\<open>lineWidth\<close> ignores values that are not positive.\<close>

definition set_lineWidth :: "real \<Rightarrow> context2d \<Rightarrow> context2d" where
  "set_lineWidth w ctx = (if 0 < w then ctx\<lparr>lineWidth := w\<rparr> else ctx)"

definition beginPath :: "context2d \<Rightarrow> context2d" where
  "beginPath ctx = ctx\<lparr>path := []\<rparr>"

definition moveTo :: "real \<Rightarrow> real \<Rightarrow> context2d \<Rightarrow> context2d" where
  "moveTo x y ctx = ctx\<lparr>path := path ctx @ [MoveTo x y]\<rparr>"

definition lineTo :: "real \<Rightarrow> real \<Rightarrow> context2d \<Rightarrow> context2d" where
  "lineTo x y ctx = ctx\<lparr>path := path ctx @ [LineTo x y]\<rparr>"

definition arc :: "real \<Rightarrow> real \<Rightarrow> real \<Rightarrow> real \<Rightarrow> real \<Rightarrow> context2d \<Rightarrow> context2d" where
  "arc x y r a0 a1 ctx = ctx\<lparr>path := path ctx @ [Arc x y r a0 a1]\<rparr>"

definition ellipse ::
  "real \<Rightarrow> real \<Rightarrow> real \<Rightarrow> real \<Rightarrow> real \<Rightarrow> real \<Rightarrow> real \<Rightarrow> context2d \<Rightarrow> context2d" where
  "ellipse x y rx ry rot a0 a1 ctx = ctx\<lparr>path := path ctx @ [Ellipse x y rx ry rot a0 a1]\<rparr>"

definition quadraticCurveTo :: "real \<Rightarrow> real \<Rightarrow> real \<Rightarrow> real \<Rightarrow> context2d \<Rightarrow> context2d" where
  "quadraticCurveTo cx cy x y ctx = ctx\<lparr>path := path ctx @ [QuadraticCurveTo cx cy x y]\<rparr>"

definition stroke :: "context2d \<Rightarrow> context2d" where
  "stroke ctx =
     ctx\<lparr>rendered := rendered ctx @
       [Stroke (path ctx) (strokeStyle ctx) (lineWidth ctx) (lineCap ctx) (lineJoin ctx)
          (transform ctx)]\<rparr>"

definition fill :: "context2d \<Rightarrow> context2d" where
  "fill ctx = ctx\<lparr>rendered := rendered ctx @ [Fill (path ctx) (fillStyle ctx) (transform ctx)]\<rparr>"

definition fillRect :: "real \<Rightarrow> real \<Rightarrow> real \<Rightarrow> real \<Rightarrow> context2d \<Rightarrow> context2d" where
  "fillRect x y w h ctx =
     ctx\<lparr>rendered := rendered ctx @ [FillRect x y w h (fillStyle ctx) (transform ctx)]\<rparr>"

subsection \<open>The canvas element and the references of the component\<close>

text \<open>
  The mounted \<^verbatim>\<open>HTMLCanvasElement\<close>: its backing size, its CSS size in pixels, the
  top-left corner of its bounding client rectangle, and whether \<^verbatim>\<open>getContext('2d')\<close>
  yields a context (it yields \<^verbatim>\<open>null\<close> for a canvas bound to another context type).
\<close>

record canvas_el =
  width :: int
  height :: int
  style_width :: int
  style_height :: int
  rect_left :: real
  rect_top :: real
  has2d :: bool

record session =
  canvasRef :: "canvas_el option"
  contextRef :: "context2d option"
  isDrawing :: bool
  lastPoint :: "point option"
  canvasSize :: "int \<times> int"
  rng :: nat

text \<open>The references as \<^verbatim>\<open>useRef\<close> and \<^verbatim>\<open>useState\<close> initialise them.\<close>

definition initial :: session where
  "initial =
     \<lparr> canvasRef = None, contextRef = None, isDrawing = False, lastPoint = None,
       canvasSize = (800, 600), rng = 0 \<rparr>"

definition unit_source :: "(nat \<Rightarrow> real) \<Rightarrow> bool" where
  "unit_source rand = (\<forall>k. 0 \<le> rand k \<and> rand k < 1)"

subsection \<open>Surface set-up (the second effect)\<close>

definition getContext :: "canvas_el \<Rightarrow> context2d option" where
  "getContext canvas = (if has2d canvas then Some reset_context else None)"

definition setupCanvas :: "session \<Rightarrow> session" where
  "setupCanvas s =
     (case canvasRef s of
        None \<Rightarrow> s
      | Some canvas0 \<Rightarrow>
          let canvas = canvas0\<lparr> width := fst (canvasSize s) * 2,
                                height := snd (canvasSize s) * 2,
                                style_width := fst (canvasSize s),
                                style_height := snd (canvasSize s) \<rparr>;
              s1 = s\<lparr>canvasRef := Some canvas\<rparr>
          in (case getContext canvas of
                None \<Rightarrow> s1
              | Some ctx0 \<Rightarrow>
                  let ctx1 = scale 2 2 ctx0;
                      ctx2 = ctx1\<lparr>lineCap := ''round''\<rparr>;
                      ctx3 = ctx2\<lparr>lineJoin := ''round''\<rparr>;
                      ctx4 = ctx3\<lparr>fillStyle := ''#1a1a1a''\<rparr>;
                      ctx5 = fillRect 0 0 (of_int (fst (canvasSize s)))
                               (of_int (snd (canvasSize s))) ctx4
                  in s1\<lparr>contextRef := Some ctx5\<rparr>))"

text \<open>
  \<^verbatim>\<open>updateSize\<close> followed by the effect it triggers: the container's measured size is
  floored and stored, and the surface is set up again.
\<close>

definition configure :: "real \<Rightarrow> real \<Rightarrow> session \<Rightarrow> session" where
  "configure w h s = setupCanvas (s\<lparr>canvasSize := (\<lfloor>w\<rfloor>, \<lfloor>h\<rfloor>)\<rparr>)"

subsection \<open>Input normalizer\<close>

text \<open>
  The check for the canvas comes first. On a mounted canvas a touch event is read at
  \<^verbatim>\<open>e.touches[0]\<close>; for an empty list that is \<^verbatim>\<open>undefined\<close>, and reading its
  \<^verbatim>\<open>clientX\<close> throws a \<^verbatim>\<open>TypeError\<close>.
\<close>

definition getCoordinates :: "session \<Rightarrow> event \<Rightarrow> error + point" where
  "getCoordinates s e =
     (case canvasRef s of
        None \<Rightarrow> Inr \<lparr>px = 0, py = 0\<rparr>
      | Some canvas \<Rightarrow>
          (case e of
             TouchEvent touches \<Rightarrow>
               (case touches of
                  [] \<Rightarrow> Inl TypeError
                | t # _ \<Rightarrow> Inr \<lparr>px = fst t - rect_left canvas, py = snd t - rect_top canvas\<rparr>)
           | MouseEvent clientX clientY \<Rightarrow>
               Inr \<lparr>px = clientX - rect_left canvas, py = clientY - rect_top canvas\<rparr>))"

subsection \<open>Stroke renderer\<close>

definition drawBrushStroke :: "CanvasProps \<Rightarrow> point \<Rightarrow> point \<Rightarrow> session \<Rightarrow> session" where
  "drawBrushStroke props start end s =
     (case contextRef s of
        None \<Rightarrow> s
      | Some ctx \<Rightarrow>
          let ctx1 = ctx\<lparr>strokeStyle := color props\<rparr>;
              ctx2 = set_lineWidth (brushSize props) ctx1;
              ctx3 = beginPath ctx2;
              ctx4 = moveTo (px start) (py start) ctx3;
              ctx5 = lineTo (px end) (py end) ctx4;
              ctx6 = stroke ctx5
          in s\<lparr>contextRef := Some ctx6\<rparr>)"

text \<open>
  The constants computed inside \<^verbatim>\<open>drawSplatter\<close>, as functions of the random source:
  \<open>numDroplets\<close> uses the draw at position \<open>rng s\<close>; the iteration that starts at position
  \<open>k\<close> uses the draws \<open>k\<close>, \<open>k + 1\<close>, \<open>k + 2\<close> for angle, distance and size.
\<close>

definition numDroplets :: "(nat \<Rightarrow> real) \<Rightarrow> session \<Rightarrow> int" where
  "numDroplets rand s = \<lfloor>rand (rng s) * 12\<rfloor> + 8"

definition dropletAngle :: "(nat \<Rightarrow> real) \<Rightarrow> nat \<Rightarrow> real" where
  "dropletAngle rand k = rand k * pi * 2"

definition dropletDistance :: "(nat \<Rightarrow> real) \<Rightarrow> CanvasProps \<Rightarrow> nat \<Rightarrow> real" where
  "dropletDistance rand props k = rand (k + 1) * brushSize props * 3"

definition dropletSize :: "(nat \<Rightarrow> real) \<Rightarrow> CanvasProps \<Rightarrow> nat \<Rightarrow> real" where
  "dropletSize rand props k = rand (k + 2) * brushSize props * 0.5 + 2"

text \<open>One iteration of the loop of \<^verbatim>\<open>drawSplatter\<close>: three draws, one filled circle.\<close>

definition droplet ::
  "(nat \<Rightarrow> real) \<Rightarrow> CanvasProps \<Rightarrow> real \<Rightarrow> real \<Rightarrow> context2d \<times> nat \<Rightarrow> context2d \<times> nat" where
  "droplet rand props x y st =
     (let ctx = fst st; k = snd st;
          angle = dropletAngle rand k;
          distance = dropletDistance rand props k;
          dropletX = x + cos angle * distance;
          dropletY = y + sin angle * distance;
          size = dropletSize rand props k;
          ctx1 = ctx\<lparr>fillStyle := color props\<rparr>;
          ctx2 = beginPath ctx1;
          ctx3 = arc dropletX dropletY size 0 (pi * 2) ctx2;
          ctx4 = fill ctx3
      in (ctx4, k + 3))"

function splatterLoop ::
  "(nat \<Rightarrow> real) \<Rightarrow> CanvasProps \<Rightarrow> real \<Rightarrow> real \<Rightarrow> int \<Rightarrow> int \<Rightarrow> context2d \<times> nat
     \<Rightarrow> context2d \<times> nat" where
  "splatterLoop rand props x y i n st =
     (if i < n
      then splatterLoop rand props x y (i + 1) n (droplet rand props x y st)
      else st)"
  by pat_completeness auto
termination
  by (relation "measure (\<lambda>(rand, props, x, y, i, n, st). nat (n - i))") auto

definition drawSplatter :: "(nat \<Rightarrow> real) \<Rightarrow> CanvasProps \<Rightarrow> real \<Rightarrow> real \<Rightarrow> session \<Rightarrow> session" where
  "drawSplatter rand props x y s =
     (case contextRef s of
        None \<Rightarrow> s
      | Some ctx \<Rightarrow>
          let st = splatterLoop rand props x y 0 (numDroplets rand s) (ctx, rng s + 1)
          in s\<lparr>contextRef := Some (fst st), rng := snd st\<rparr>)"

text \<open>
  The two constants of \<^verbatim>\<open>drawDrip\<close>: the first draw gives the length, the second the
  width (the radius of the blob).
\<close>

definition dripLength :: "(nat \<Rightarrow> real) \<Rightarrow> session \<Rightarrow> real" where
  "dripLength rand s = rand (rng s) * 80 + 40"

definition dripWidth :: "(nat \<Rightarrow> real) \<Rightarrow> CanvasProps \<Rightarrow> session \<Rightarrow> real" where
  "dripWidth rand props s = rand (rng s + 1) * brushSize props * 0.5 + brushSize props * 0.5"

definition drawDrip :: "(nat \<Rightarrow> real) \<Rightarrow> CanvasProps \<Rightarrow> real \<Rightarrow> real \<Rightarrow> session \<Rightarrow> session" where
  "drawDrip rand props x y s =
     (case contextRef s of
        None \<Rightarrow> s
      | Some ctx \<Rightarrow>
          let len = dripLength rand s;
              w = dripWidth rand props s;
              ctx1 = ctx\<lparr>fillStyle := color props\<rparr>;
              ctx2 = beginPath ctx1;
              ctx3 = ellipse x y w w 0 0 (pi * 2) ctx2;
              ctx4 = fill ctx3;
              ctx5 = beginPath ctx4;
              ctx6 = moveTo (x - w * 0.3) y ctx5;
              ctx7 = quadraticCurveTo (x - w * 0.2) (y + len * 0.5)
                       x (y + len) ctx6;
              ctx8 = quadraticCurveTo (x + w * 0.2) (y + len * 0.5)
                       (x + w * 0.3) y ctx7;
              ctx9 = fill ctx8
          in s\<lparr>contextRef := Some ctx9, rng := rng s + 2\<rparr>)"

subsection \<open>Session controller\<close>

text \<open>
  Both handlers first call \<^verbatim>\<open>e.preventDefault()\<close>, which acts on the event only and
  leaves the references alone. \<^verbatim>\<open>handleStart\<close> sets \<^verbatim>\<open>isDrawing\<close> before it normalizes
  the event, so that assignment survives a throw of the normalizer.
\<close>

definition handleStart ::
  "(nat \<Rightarrow> real) \<Rightarrow> CanvasProps \<Rightarrow> event \<Rightarrow> session \<Rightarrow> completion \<times> session" where
  "handleStart rand props e s =
     (let s1 = s\<lparr>isDrawing := True\<rparr>
      in case getCoordinates s1 e of
           Inl err \<Rightarrow> (Thrown err, s1)
         | Inr coords \<Rightarrow>
             let s2 = s1\<lparr>lastPoint := Some coords\<rparr>
             in if tool props = Splatter then (Normal, drawSplatter rand props (px coords) (py coords) s2)
                else if tool props = Drip then (Normal, drawDrip rand props (px coords) (py coords) s2)
                else (Normal, s2))"

text \<open>
  The conditions of \<^verbatim>\<open>handleMove\<close> are evaluated left to right and \<^verbatim>\<open>&&\<close> short-circuits:
  \<^verbatim>\<open>Math.random()\<close> is called once when the tool is splatter, once when it is drip, and
  not at all when it is brush.
\<close>

definition handleMove ::
  "(nat \<Rightarrow> real) \<Rightarrow> CanvasProps \<Rightarrow> event \<Rightarrow> session \<Rightarrow> completion \<times> session" where
  "handleMove rand props e s =
     (if \<not> isDrawing s then (Normal, s)
      else case getCoordinates s e of
             Inl err \<Rightarrow> (Thrown err, s)
           | Inr coords \<Rightarrow>
               let s1 =
                 (if tool props = Brush \<and> lastPoint s \<noteq> None
                  then drawBrushStroke props (the (lastPoint s)) coords s
                  else if tool props = Splatter
                  then (let r = rand (rng s); s0 = s\<lparr>rng := rng s + 1\<rparr>
                        in if r > 0.7 then drawSplatter rand props (px coords) (py coords) s0
                           else s0)
                  else if tool props = Drip
                  then (let r = rand (rng s); s0 = s\<lparr>rng := rng s + 1\<rparr>
                        in if r > 0.9 then drawDrip rand props (px coords) (py coords) s0
                           else s0)
                  else s)
               in (Normal, s1\<lparr>lastPoint := Some coords\<rparr>))"

definition handleEnd :: "session \<Rightarrow> session" where
  "handleEnd s = s\<lparr>isDrawing := False, lastPoint := None\<rparr>"

subsection \<open>Export and reset\<close>

definition clear :: "session \<Rightarrow> session" where
  "clear s =
     (case contextRef s of
        None \<Rightarrow> s
      | Some ctx \<Rightarrow>
          let ctx1 = ctx\<lparr>fillStyle := ''#1a1a1a''\<rparr>;
              ctx2 = fillRect 0 0 (of_int (fst (canvasSize s))) (of_int (snd (canvasSize s))) ctx1
          in s\<lparr>contextRef := Some ctx2\<rparr>)"


subsection \<open>The event loop\<close>

text \<open>
  The browser delivers events one at a time; each handler runs to completion on the
  references the previous one left. An action is one such delivery, with the props of the
  render whose callbacks receive it.
\<close>

datatype action =
    Mount canvas_el
  | Configure real real
  | Start CanvasProps event
  | Move CanvasProps event
  | End
  | Clear

fun step :: "(nat \<Rightarrow> real) \<Rightarrow> action \<Rightarrow> session \<Rightarrow> session" where
  "step rand (Mount canvas) s = s\<lparr>canvasRef := Some canvas\<rparr>"
| "step rand (Configure w h) s = configure w h s"
| "step rand (Start props e) s = snd (handleStart rand props e s)"
| "step rand (Move props e) s = snd (handleMove rand props e s)"
| "step rand End s = handleEnd s"
| "step rand Clear s = clear s"

fun run :: "(nat \<Rightarrow> real) \<Rightarrow> action list \<Rightarrow> session \<Rightarrow> session" where
  "run rand [] s = s"
| "run rand (a # as) s = run rand as (step rand a s)"

text \<open>A run of move events only, each with the props current when it arrives.\<close>

fun handleMoves :: "(nat \<Rightarrow> real) \<Rightarrow> (CanvasProps \<times> event) list \<Rightarrow> session \<Rightarrow> session" where
  "handleMoves rand [] s = s"
| "handleMoves rand (m # ms) s = handleMoves rand ms (snd (handleMove rand (fst m) (snd m) s))"

subsection \<open>Reference descriptions of what is painted\<close>

text \<open>
  The polyline of the specification: starting at \<open>p\<close>, one straight segment to each
  sampled point in turn, each drawn with the colour and the width of the props that came
  with the sample, and with the cap, join and transform of the context.
\<close>

fun polyline ::
  "string \<Rightarrow> string \<Rightarrow> real \<times> real \<Rightarrow> point \<Rightarrow> (CanvasProps \<times> point) list \<Rightarrow> paint list" where
  "polyline cap join tr p [] = []"
| "polyline cap join tr p (m # ms) =
     Stroke [MoveTo (px p) (py p), LineTo (px (snd m)) (py (snd m))]
       (color (fst m)) (brushSize (fst m)) cap join tr
     # polyline cap join tr (snd m) ms"

text \<open>The two ends and the width of a painted straight segment.\<close>

definition segStart :: "paint \<Rightarrow> point option" where
  "segStart p =
     (case p of
        Stroke [MoveTo x0 y0, LineTo x1 y1] _ _ _ _ _ \<Rightarrow> Some \<lparr>px = x0, py = y0\<rparr>
      | _ \<Rightarrow> None)"

definition segEnd :: "paint \<Rightarrow> point option" where
  "segEnd p =
     (case p of
        Stroke [MoveTo x0 y0, LineTo x1 y1] _ _ _ _ _ \<Rightarrow> Some \<lparr>px = x1, py = y1\<rparr>
      | _ \<Rightarrow> None)"

definition segWidth :: "paint \<Rightarrow> real option" where
  "segWidth p = (case p of Stroke _ _ w _ _ _ \<Rightarrow> Some w | _ \<Rightarrow> None)"

text \<open>The point an event is normalized to, when \<^verbatim>\<open>getCoordinates\<close> returns one.\<close>

definition coordsOf :: "session \<Rightarrow> event \<Rightarrow> point" where
  "coordsOf s e = (case getCoordinates s e of Inr c \<Rightarrow> c | Inl _ \<Rightarrow> \<lparr>px = 0, py = 0\<rparr>)"

text \<open>The circle painted by the iteration of \<^verbatim>\<open>drawSplatter\<close> that starts at draw \<open>k\<close>.\<close>

definition dropletPaint ::
  "(nat \<Rightarrow> real) \<Rightarrow> CanvasProps \<Rightarrow> real \<Rightarrow> real \<Rightarrow> real \<times> real \<Rightarrow> nat \<Rightarrow> paint" where
  "dropletPaint rand props x y tr k =
     Fill [Arc (x + cos (dropletAngle rand k) * dropletDistance rand props k)
               (y + sin (dropletAngle rand k) * dropletDistance rand props k)
               (dropletSize rand props k) 0 (pi * 2)]
          (color props) tr"

text \<open>
  \<^verbatim>\<open>quadraticCurveTo\<close> adds a quadratic Bezier curve; this is one coordinate of its
  point at parameter \<open>t\<close>, from \<open>p0\<close> with control \<open>c\<close> to \<open>p1\<close>.
\<close>

definition quadBezier :: "real \<Rightarrow> real \<Rightarrow> real \<Rightarrow> real \<Rightarrow> real" where
  "quadBezier p0 c p1 t = (1 - t) * (1 - t) * p0 + 2 * (1 - t) * t * c + t * t * p1"

text \<open>
  A teardrop is a filled path of one move and two quadratic curves, the first running
  from the top-left corner down to the tip and the second from the tip back up to the
  top-right corner. Both edges are read from the top (\<open>t = 0\<close>) to the tip (\<open>t = 1\<close>).
\<close>

definition leftEdge :: "paint \<Rightarrow> real \<Rightarrow> real \<times> real" where
  "leftEdge p t =
     (case p of
        Fill [MoveTo x0 y0, QuadraticCurveTo c1x c1y x1 y1, QuadraticCurveTo c2x c2y x2 y2] _ _
          \<Rightarrow> (quadBezier x0 c1x x1 t, quadBezier y0 c1y y1 t)
      | _ \<Rightarrow> (0, 0))"

definition rightEdge :: "paint \<Rightarrow> real \<Rightarrow> real \<times> real" where
  "rightEdge p t =
     (case p of
        Fill [MoveTo x0 y0, QuadraticCurveTo c1x c1y x1 y1, QuadraticCurveTo c2x c2y x2 y2] _ _
          \<Rightarrow> (quadBezier x2 c2x x1 t, quadBezier y2 c2y y1 t)
      | _ \<Rightarrow> (0, 0))"

definition teardropWidth :: "paint \<Rightarrow> real \<Rightarrow> real" where
  "teardropWidth p t = fst (rightEdge p t) - fst (leftEdge p t)"

definition blobRadius :: "paint \<Rightarrow> real" where
  "blobRadius p = (case p of Fill [Ellipse x y rx ry rot a0 a1] _ _ \<Rightarrow> rx | _ \<Rightarrow> 0)"

text \<open>Whether a paint operation is a rectangle fill whose rectangle contains the point.\<close>

definition rectFills :: "paint \<Rightarrow> real \<Rightarrow> real \<Rightarrow> bool" where
  "rectFills p a b =
     (case p of
        FillRect x y w h _ _ \<Rightarrow> x \<le> a \<and> a \<le> x + w \<and> y \<le> b \<and> b \<le> y + h
      | _ \<Rightarrow> False)"

definition rectStyle :: "paint \<Rightarrow> string option" where
  "rectStyle p = (case p of FillRect _ _ _ _ c _ \<Rightarrow> Some c | _ \<Rightarrow> None)"


section \<open>Properties\<close>

subsection \<open>Shared facts\<close>

lemma unit_sourceD: "unit_source rand \<Longrightarrow> 0 \<le> rand k \<and> rand k < 1"
  by (simp add: unit_source_def)

lemma drawDrip_context:
  assumes "contextRef s = Some ctx"
  shows "contextRef (drawDrip rand props x y s) =
    Some (ctx\<lparr> fillStyle := color props,
      path := [MoveTo (x - dripWidth rand props s * 0.3) y,
          QuadraticCurveTo (x - dripWidth rand props s * 0.2) (y + dripLength rand s * 0.5)
            x (y + dripLength rand s),
          QuadraticCurveTo (x + dripWidth rand props s * 0.2) (y + dripLength rand s * 0.5)
            (x + dripWidth rand props s * 0.3) y],
      rendered := rendered ctx @
        [Fill [Ellipse x y (dripWidth rand props s) (dripWidth rand props s) 0 0 (pi * 2)]
           (color props) (transform ctx),
         Fill [MoveTo (x - dripWidth rand props s * 0.3) y,
          QuadraticCurveTo (x - dripWidth rand props s * 0.2) (y + dripLength rand s * 0.5)
            x (y + dripLength rand s),
          QuadraticCurveTo (x + dripWidth rand props s * 0.2) (y + dripLength rand s * 0.5)
            (x + dripWidth rand props s * 0.3) y]
           (color props) (transform ctx)] \<rparr>)"
  using assms
  by (simp add: drawDrip_def Let_def beginPath_def ellipse_def fill_def moveTo_def
      quadraticCurveTo_def)

lemma dripLength_range:
  assumes "unit_source rand"
  shows "40 \<le> dripLength rand s \<and> dripLength rand s < 120"
  using unit_sourceD[OF assms, of "rng s"] by (simp add: dripLength_def)

lemma dripWidth_range:
  assumes "unit_source rand" and "0 < brushSize props"
  shows "brushSize props * 0.5 \<le> dripWidth rand props s \<and> dripWidth rand props s < brushSize props"
proof -
  have r: "0 \<le> rand (rng s + 1)" "rand (rng s + 1) < 1"
    using unit_sourceD[OF assms(1), of "rng s + 1"] by simp_all
  have "0 \<le> rand (rng s + 1) * brushSize props"
    using r(1) assms(2) by simp
  moreover have "rand (rng s + 1) * brushSize props < 1 * brushSize props"
    using r(2) assms(2) by (simp only: mult_strict_right_mono)
  ultimately show ?thesis by (simp add: dripWidth_def)
qed

subsection \<open>Drip: radius of the blob and length of the taper\<close>



subsection \<open>Splatter: the cluster of droplets\<close>

lemma droplet_effect:
  "snd (droplet rand props x y st) = snd st + 3"
  "transform (fst (droplet rand props x y st)) = transform (fst st)"
  "rendered (fst (droplet rand props x y st)) =
     rendered (fst st) @ [dropletPaint rand props x y (transform (fst st)) (snd st)]"
  by (simp_all add: droplet_def Let_def beginPath_def arc_def fill_def dropletPaint_def)

lemma upt_0_Suc_shift: "[0..<Suc m] = 0 # map Suc [0..<m]"
  by (simp add: upt_conv_Cons map_Suc_upt del: upt_Suc)

lemma splatterLoop_effect:
  "snd (splatterLoop rand props x y i n st) = snd st + 3 * nat (n - i)
   \<and> transform (fst (splatterLoop rand props x y i n st)) = transform (fst st)
   \<and> rendered (fst (splatterLoop rand props x y i n st)) =
       rendered (fst st) @
         map (\<lambda>j. dropletPaint rand props x y (transform (fst st)) (snd st + 3 * j))
           [0..<nat (n - i)]"
proof (induction rand props x y i n st rule: splatterLoop.induct)
  case (1 rand props x y i n st)
  show ?case
  proof (cases "i < n")
    case True
    have n: "nat (n - i) = Suc (nat (n - (i + 1)))"
      using True by linarith
    have unfold: "splatterLoop rand props x y i n st =
        splatterLoop rand props x y (i + 1) n (droplet rand props x y st)"
      using True by (subst splatterLoop.simps) simp
    show ?thesis
      using "1.IH"[OF True]
      by (simp only: unfold n upt_0_Suc_shift droplet_effect)
        (simp add: comp_def algebra_simps)
  next
    case False
    then show ?thesis by (subst (1 2 3) splatterLoop.simps) simp
  qed
qed

lemma drawSplatter_rendered:
  assumes "contextRef s = Some ctx"
  shows "rendered (the (contextRef (drawSplatter rand props x y s))) =
     rendered ctx @
       map (\<lambda>j. dropletPaint rand props x y (transform ctx) (rng s + 1 + 3 * j))
         [0..<nat (numDroplets rand s)]"
  using assms splatterLoop_effect[of rand props x y 0 "numDroplets rand s" "(ctx, rng s + 1)"]
  by (simp add: drawSplatter_def Let_def)

lemma numDroplets_range:
  assumes "unit_source rand"
  shows "8 \<le> numDroplets rand s \<and> numDroplets rand s \<le> 19"
proof -
  have r: "0 \<le> rand (rng s)" "rand (rng s) < 1"
    using unit_sourceD[OF assms, of "rng s"] by simp_all
  have "0 \<le> \<lfloor>rand (rng s) * 12\<rfloor>" using r(1) by simp
  moreover have "\<lfloor>rand (rng s) * 12\<rfloor> < 12"
    using r(2) by (simp add: floor_less_iff)
  ultimately show ?thesis by (simp add: numDroplets_def)
qed





subsection \<open>Drip: the teardrop below the blob\<close>

lemma teardrop_edges:
  "leftEdge (Fill [MoveTo (x - w * 0.3) y,
                   QuadraticCurveTo (x - w * 0.2) (y + len * 0.5) x (y + len),
                   QuadraticCurveTo (x + w * 0.2) (y + len * 0.5) (x + w * 0.3) y] c tr) t
     = (x - w * (1 - t) * (0.3 + 0.1 * t), y + len * t)"
  "rightEdge (Fill [MoveTo (x - w * 0.3) y,
                    QuadraticCurveTo (x - w * 0.2) (y + len * 0.5) x (y + len),
                    QuadraticCurveTo (x + w * 0.2) (y + len * 0.5) (x + w * 0.3) y] c tr) t
     = (x + w * (1 - t) * (0.3 + 0.1 * t), y + len * t)"
  by (simp_all add: leftEdge_def rightEdge_def quadBezier_def field_simps)

lemma taper_decreasing:
  fixes w t u :: real
  assumes "0 < w" and "0 \<le> t" and "t < u"
  shows "2 * (w * (1 - u) * (0.3 + 0.1 * u)) < 2 * (w * (1 - t) * (0.3 + 0.1 * t))"
proof -
  have eq: "2 * (w * (1 - t) * (0.3 + 0.1 * t)) - 2 * (w * (1 - u) * (0.3 + 0.1 * u))
      = w * ((u - t) * (0.4 + 0.2 * (u + t)))"
    by (simp add: field_simps)
  have "0 < u - t" using assms(3) by simp
  moreover have "0 < 0.4 + 0.2 * (u + t)" using assms(2,3) by (simp add: field_simps)
  ultimately have "0 < (u - t) * (0.4 + 0.2 * (u + t))" by (rule mult_pos_pos)
  with assms(1) have "0 < w * ((u - t) * (0.4 + 0.2 * (u + t)))" by (rule mult_pos_pos)
  then have "0 < 2 * (w * (1 - t) * (0.3 + 0.1 * t)) - 2 * (w * (1 - u) * (0.3 + 0.1 * u))"
    by (simp only: eq)
  then show ?thesis by (simp only: diff_gt_0_iff_gt)
qed

text \<open>
  Claim C3, as amended. Whenever the drip renderer runs on a configured surface with a
  positive brush size and a random source that stays in \<open>[0, 1)\<close>, it paints the blob and
  then one teardrop: a filled path of two quadratic curves that are mirror images of each
  other in the vertical line through the blob centre, that run at equal depth, and that
  meet at the point \<open>dripLength\<close> below the blob centre. The width of the teardrop is
  \<open>0.6 \<times> dripWidth\<close> at the top (\<open>0.3\<close> of the blob radius on each side of the centre), zero
  at the tip, and strictly decreasing in between.
\<close>

theorem drawDrip_teardrop:
  assumes "unit_source rand" and "0 < brushSize props" and "contextRef s = Some ctx"
  shows "rendered (the (contextRef (drawDrip rand props x y s))) =
           rendered ctx @
             [Fill [Ellipse x y (dripWidth rand props s) (dripWidth rand props s) 0 0 (pi * 2)]
                (color props) (transform ctx),
              last (rendered (the (contextRef (drawDrip rand props x y s))))]
       \<and> last (rendered (the (contextRef (drawDrip rand props x y s)))) =
           Fill [MoveTo (x - dripWidth rand props s * 0.3) y,
                 QuadraticCurveTo (x - dripWidth rand props s * 0.2)
                   (y + dripLength rand s * 0.5) x (y + dripLength rand s),
                 QuadraticCurveTo (x + dripWidth rand props s * 0.2)
                   (y + dripLength rand s * 0.5) (x + dripWidth rand props s * 0.3) y]
             (color props) (transform ctx)
       \<and> (\<forall>t. fst (rightEdge (last (rendered (the (contextRef (drawDrip rand props x y s))))) t) - x
               = x - fst (leftEdge (last (rendered (the (contextRef (drawDrip rand props x y s))))) t)
            \<and> snd (rightEdge (last (rendered (the (contextRef (drawDrip rand props x y s))))) t)
               = snd (leftEdge (last (rendered (the (contextRef (drawDrip rand props x y s))))) t)
            \<and> snd (leftEdge (last (rendered (the (contextRef (drawDrip rand props x y s))))) t)
               = y + dripLength rand s * t)
       \<and> leftEdge (last (rendered (the (contextRef (drawDrip rand props x y s))))) 1
           = (x, y + dripLength rand s)
       \<and> rightEdge (last (rendered (the (contextRef (drawDrip rand props x y s))))) 1
           = (x, y + dripLength rand s)
       \<and> 0 < dripLength rand s
       \<and> teardropWidth (last (rendered (the (contextRef (drawDrip rand props x y s))))) 0
           = 0.6 * dripWidth rand props s
       \<and> teardropWidth (last (rendered (the (contextRef (drawDrip rand props x y s))))) 1 = 0
       \<and> (\<forall>t u. 0 \<le> t \<and> t < u \<longrightarrow>
             teardropWidth (last (rendered (the (contextRef (drawDrip rand props x y s))))) u
           < teardropWidth (last (rendered (the (contextRef (drawDrip rand props x y s))))) t)"
proof -
  have w: "0 < dripWidth rand props s"
    using dripWidth_range[OF assms(1,2), of s] assms(2) by simp
  have len: "0 < dripLength rand s"
    using dripLength_range[OF assms(1), of s] by simp
  have td: "last (rendered (the (contextRef (drawDrip rand props x y s)))) =
           Fill [MoveTo (x - dripWidth rand props s * 0.3) y,
                 QuadraticCurveTo (x - dripWidth rand props s * 0.2)
                   (y + dripLength rand s * 0.5) x (y + dripLength rand s),
                 QuadraticCurveTo (x + dripWidth rand props s * 0.2)
                   (y + dripLength rand s * 0.5) (x + dripWidth rand props s * 0.3) y]
             (color props) (transform ctx)"
    by (simp add: drawDrip_context[OF assms(3)])
  have L: "leftEdge (last (rendered (the (contextRef (drawDrip rand props x y s))))) t =
      (x - dripWidth rand props s * (1 - t) * (0.3 + 0.1 * t), y + dripLength rand s * t)" for t
    by (simp only: td teardrop_edges)
  have R: "rightEdge (last (rendered (the (contextRef (drawDrip rand props x y s))))) t =
      (x + dripWidth rand props s * (1 - t) * (0.3 + 0.1 * t), y + dripLength rand s * t)" for t
    by (simp only: td teardrop_edges)
  have W: "teardropWidth (last (rendered (the (contextRef (drawDrip rand props x y s))))) t =
      2 * (dripWidth rand props s * (1 - t) * (0.3 + 0.1 * t))" for t
    by (simp add: teardropWidth_def L R)
  have mono: "teardropWidth (last (rendered (the (contextRef (drawDrip rand props x y s))))) u
           < teardropWidth (last (rendered (the (contextRef (drawDrip rand props x y s))))) t"
    if "0 \<le> t" and "t < u" for t u
    using taper_decreasing[OF w that] by (simp only: W)
  have rest: "rendered (the (contextRef (drawDrip rand props x y s))) =
           rendered ctx @
             [Fill [Ellipse x y (dripWidth rand props s) (dripWidth rand props s) 0 0 (pi * 2)]
                (color props) (transform ctx),
              last (rendered (the (contextRef (drawDrip rand props x y s))))]"
    by (simp add: drawDrip_context[OF assms(3)])
  show ?thesis
    apply (intro conjI allI impI)
    subgoal by (rule rest)
    subgoal by (rule td)
    subgoal for t by (simp add: L R)
    subgoal for t by (simp add: L R)
    subgoal for t by (simp add: L)
    subgoal by (simp add: L)
    subgoal by (simp add: R)
    subgoal by (rule len)
    subgoal by (simp add: W)
    subgoal by (simp add: W)
    subgoal for t u using mono[of t u] by blast
    done
qed

theorem drawDrip_teardrop_witness:
  "unit_source (\<lambda>_. 0)
   \<and> (0::real) < brushSize \<lparr>color = ''#e63946'', tool = Drip, brushSize = 12\<rparr>
   \<and> contextRef (initial\<lparr>contextRef := Some reset_context\<rparr>) = Some reset_context
   \<and> (0 \<le> (0::real) \<and> (0::real) < 1)
   \<and> rendered (the (contextRef (drawDrip (\<lambda>_. 0)
        \<lparr>color = ''#e63946'', tool = Drip, brushSize = 12\<rparr> 100 100
        (initial\<lparr>contextRef := Some reset_context\<rparr>)))) =
      [Fill [Ellipse 100 100 6 6 0 0 (pi * 2)] ''#e63946'' (1, 1),
       Fill [MoveTo 98.2 100, QuadraticCurveTo 98.8 120 100 140,
             QuadraticCurveTo 101.2 120 101.8 100] ''#e63946'' (1, 1)]
   \<and> teardropWidth (Fill [MoveTo 98.2 100, QuadraticCurveTo 98.8 120 100 140,
             QuadraticCurveTo 101.2 120 101.8 100] ''#e63946'' (1, 1)) 1
     < teardropWidth (Fill [MoveTo 98.2 100, QuadraticCurveTo 98.8 120 100 140,
             QuadraticCurveTo 101.2 120 101.8 100] ''#e63946'' (1, 1)) 0"
proof -
  have h1: "unit_source (\<lambda>_. 0)" by (simp add: unit_source_def)
  have h2: "(0::real) < brushSize \<lparr>color = ''#e63946'', tool = Drip, brushSize = 12\<rparr>" by simp
  have h3: "contextRef (initial\<lparr>contextRef := Some reset_context\<rparr>) = Some reset_context" by simp
  have h4: "0 \<le> (0::real) \<and> (0::real) < 1" by simp
  have r: "rendered (the (contextRef (drawDrip (\<lambda>_. 0)
        \<lparr>color = ''#e63946'', tool = Drip, brushSize = 12\<rparr> 100 100
        (initial\<lparr>contextRef := Some reset_context\<rparr>)))) =
      [Fill [Ellipse 100 100 6 6 0 0 (pi * 2)] ''#e63946'' (1, 1),
       Fill [MoveTo 98.2 100, QuadraticCurveTo 98.8 120 100 140,
             QuadraticCurveTo 101.2 120 101.8 100] ''#e63946'' (1, 1)]"
    by (simp add: drawDrip_context[OF h3] dripWidth_def dripLength_def)
      (simp add: reset_context_def)
  from drawDrip_teardrop[OF h1 h2 h3, of 100 100] h4
  have "teardropWidth (last (rendered (the (contextRef (drawDrip (\<lambda>_. 0)
        \<lparr>color = ''#e63946'', tool = Drip, brushSize = 12\<rparr> 100 100
        (initial\<lparr>contextRef := Some reset_context\<rparr>)))))) 1
      < teardropWidth (last (rendered (the (contextRef (drawDrip (\<lambda>_. 0)
        \<lparr>color = ''#e63946'', tool = Drip, brushSize = 12\<rparr> 100 100
        (initial\<lparr>contextRef := Some reset_context\<rparr>)))))) 0"
    by blast
  then show ?thesis using h1 h2 h3 h4 by (simp only: r last.simps) simp
qed

text \<open>
  The claim as first stated, that the teardrop is as wide at the top as the blob radius,
  fails: for brush size 12 and draws 0 the blob has radius 6 and the top of the teardrop
  is 3.6 wide.
\<close>

theorem drawDrip_teardrop_top_counterexample:
  "blobRadius (rendered (the (contextRef (drawDrip (\<lambda>_. 0)
        \<lparr>color = ''#e63946'', tool = Drip, brushSize = 12\<rparr> 100 100
        (initial\<lparr>contextRef := Some reset_context\<rparr>)))) ! 0) = 6
   \<and> teardropWidth (rendered (the (contextRef (drawDrip (\<lambda>_. 0)
        \<lparr>color = ''#e63946'', tool = Drip, brushSize = 12\<rparr> 100 100
        (initial\<lparr>contextRef := Some reset_context\<rparr>)))) ! 1) 0 = 3.6
   \<and> teardropWidth (rendered (the (contextRef (drawDrip (\<lambda>_. 0)
        \<lparr>color = ''#e63946'', tool = Drip, brushSize = 12\<rparr> 100 100
        (initial\<lparr>contextRef := Some reset_context\<rparr>)))) ! 1) 0
     \<noteq> blobRadius (rendered (the (contextRef (drawDrip (\<lambda>_. 0)
        \<lparr>color = ''#e63946'', tool = Drip, brushSize = 12\<rparr> 100 100
        (initial\<lparr>contextRef := Some reset_context\<rparr>)))) ! 0)"
  by (simp add: drawDrip_def Let_def dripWidth_def dripLength_def reset_context_def initial_def
      beginPath_def ellipse_def fill_def moveTo_def quadraticCurveTo_def
      blobRadius_def teardropWidth_def leftEdge_def rightEdge_def quadBezier_def)

subsection \<open>What the renderers leave alone\<close>

lemma drawBrushStroke_frame:
  "canvasRef (drawBrushStroke props a b s) = canvasRef s"
  "isDrawing (drawBrushStroke props a b s) = isDrawing s"
  "lastPoint (drawBrushStroke props a b s) = lastPoint s"
  "rng (drawBrushStroke props a b s) = rng s"
  "canvasSize (drawBrushStroke props a b s) = canvasSize s"
  by (simp_all add: drawBrushStroke_def Let_def split: option.splits)

lemma drawSplatter_frame:
  "canvasRef (drawSplatter rand props x y s) = canvasRef s"
  "isDrawing (drawSplatter rand props x y s) = isDrawing s"
  "lastPoint (drawSplatter rand props x y s) = lastPoint s"
  "canvasSize (drawSplatter rand props x y s) = canvasSize s"
  by (simp_all add: drawSplatter_def Let_def split: option.splits)

lemma drawDrip_frame:
  "canvasRef (drawDrip rand props x y s) = canvasRef s"
  "isDrawing (drawDrip rand props x y s) = isDrawing s"
  "lastPoint (drawDrip rand props x y s) = lastPoint s"
  "canvasSize (drawDrip rand props x y s) = canvasSize s"
  by (simp_all add: drawDrip_def Let_def split: option.splits)

lemma clear_frame:
  "canvasRef (clear s) = canvasRef s"
  "isDrawing (clear s) = isDrawing s"
  "lastPoint (clear s) = lastPoint s"
  by (simp_all add: clear_def Let_def split: option.splits)

lemma setupCanvas_frame:
  "isDrawing (setupCanvas s) = isDrawing s"
  "lastPoint (setupCanvas s) = lastPoint s"
  by (simp_all add: setupCanvas_def Let_def split: option.splits)

lemma configure_frame:
  "isDrawing (configure w h s) = isDrawing s"
  "lastPoint (configure w h s) = lastPoint s"
  by (simp_all add: configure_def setupCanvas_frame)

lemma getCoordinates_canvas:
  "canvasRef s' = canvasRef s \<Longrightarrow> getCoordinates s' e = getCoordinates s e"
  by (simp add: getCoordinates_def)

lemma handleStart_normal:
  assumes "getCoordinates s e = Inr c"
  shows "handleStart rand props e s =
     (Normal,
      if tool props = Splatter
      then drawSplatter rand props (px c) (py c) (s\<lparr>isDrawing := True, lastPoint := Some c\<rparr>)
      else if tool props = Drip
      then drawDrip rand props (px c) (py c) (s\<lparr>isDrawing := True, lastPoint := Some c\<rparr>)
      else s\<lparr>isDrawing := True, lastPoint := Some c\<rparr>)"
proof -
  have "getCoordinates (s\<lparr>isDrawing := True\<rparr>) e = Inr c"
    using assms by (simp add: getCoordinates_def)
  then show ?thesis by (simp add: handleStart_def Let_def)
qed

lemma handleStart_isDrawing: "isDrawing (snd (handleStart rand props e s))"
  by (simp add: handleStart_def Let_def drawSplatter_frame drawDrip_frame split: sum.splits)

lemma handleMove_normal:
  assumes "isDrawing s" and "getCoordinates s e = Inr c"
  shows "handleMove rand props e s =
     (Normal,
      (if tool props = Brush \<and> lastPoint s \<noteq> None
       then drawBrushStroke props (the (lastPoint s)) c s
       else if tool props = Splatter
       then (if 0.7 < rand (rng s)
             then drawSplatter rand props (px c) (py c) (s\<lparr>rng := rng s + 1\<rparr>)
             else s\<lparr>rng := rng s + 1\<rparr>)
       else if tool props = Drip
       then (if 0.9 < rand (rng s)
             then drawDrip rand props (px c) (py c) (s\<lparr>rng := rng s + 1\<rparr>)
             else s\<lparr>rng := rng s + 1\<rparr>)
       else s)\<lparr>lastPoint := Some c\<rparr>)"
  using assms by (auto simp: handleMove_def Let_def)

lemma handleMove_isDrawing: "isDrawing (snd (handleMove rand props e s)) = isDrawing s"
  by (simp add: handleMove_def Let_def drawSplatter_frame drawDrip_frame drawBrushStroke_frame
      split: sum.splits)

subsection \<open>The unready surface\<close>





subsection \<open>Configuring the surface\<close>

lemma setupCanvas_ready:
  assumes "canvasRef s = Some canvas" and "has2d canvas"
  shows "setupCanvas s =
     s\<lparr> canvasRef := Some (canvas\<lparr> width := fst (canvasSize s) * 2,
                                     height := snd (canvasSize s) * 2,
                                     style_width := fst (canvasSize s),
                                     style_height := snd (canvasSize s) \<rparr>),
        contextRef := Some (reset_context\<lparr>
          fillStyle := ''#1a1a1a'', lineCap := ''round'', lineJoin := ''round'',
          transform := (2, 2),
          rendered := [FillRect 0 0 (of_int (fst (canvasSize s))) (of_int (snd (canvasSize s)))
                         ''#1a1a1a'' (2, 2)] \<rparr>) \<rparr>"
  using assms
  by (simp add: setupCanvas_def getContext_def Let_def scale_def fillRect_def reset_context_def)

text \<open>
  Claim C9. When a canvas is mounted and yields a 2D context, configuring the surface
  for a measured size \<open>(w, h)\<close> stores the logical size \<open>(\<lfloor>w\<rfloor>, \<lfloor>h\<rfloor>)\<close>, gives the canvas a
  backing store of twice that size and a CSS size equal to it, and leaves a context whose
  transform is the scale by 2, whose caps and joins are round, and whose bitmap holds
  exactly one paint operation: the rectangle from \<open>(0, 0)\<close> with the logical width and
  height, in the background colour \<^verbatim>\<open>#1a1a1a\<close>. Every point of the logical area lies in
  that rectangle. The outcome does not depend on the context, and so not on anything
  painted, before the call.
\<close>

theorem configure_repaints:
  assumes "canvasRef s = Some canvas" and "has2d canvas"
  shows "canvasSize (configure w h s) = (\<lfloor>w\<rfloor>, \<lfloor>h\<rfloor>)
     \<and> map_option width (canvasRef (configure w h s)) = Some (\<lfloor>w\<rfloor> * 2)
     \<and> map_option height (canvasRef (configure w h s)) = Some (\<lfloor>h\<rfloor> * 2)
     \<and> map_option style_width (canvasRef (configure w h s)) = Some \<lfloor>w\<rfloor>
     \<and> map_option style_height (canvasRef (configure w h s)) = Some \<lfloor>h\<rfloor>
     \<and> map_option transform (contextRef (configure w h s)) = Some (2, 2)
     \<and> map_option lineCap (contextRef (configure w h s)) = Some ''round''
     \<and> map_option lineJoin (contextRef (configure w h s)) = Some ''round''
     \<and> map_option rendered (contextRef (configure w h s)) =
          Some [FillRect 0 0 (of_int \<lfloor>w\<rfloor>) (of_int \<lfloor>h\<rfloor>) ''#1a1a1a'' (2, 2)]
     \<and> (\<forall>a b. 0 \<le> a \<and> a \<le> of_int \<lfloor>w\<rfloor> \<and> 0 \<le> b \<and> b \<le> of_int \<lfloor>h\<rfloor> \<longrightarrow>
            rectFills (last (rendered (the (contextRef (configure w h s))))) a b
          \<and> rectStyle (last (rendered (the (contextRef (configure w h s))))) = Some ''#1a1a1a'')
     \<and> configure w h (s\<lparr>contextRef := prior\<rparr>) = configure w h s"
proof -
  have c: "canvasRef (s\<lparr>canvasSize := (\<lfloor>w\<rfloor>, \<lfloor>h\<rfloor>)\<rparr>) = Some canvas"
    and c': "canvasRef (s\<lparr>contextRef := prior, canvasSize := (\<lfloor>w\<rfloor>, \<lfloor>h\<rfloor>)\<rparr>) = Some canvas"
    using assms(1) by simp_all
  show ?thesis
    by (simp add: configure_def setupCanvas_ready[OF c assms(2)]
        setupCanvas_ready[OF c' assms(2)] rectFills_def rectStyle_def)
qed

theorem configure_repaints_witness:
  "canvasRef (initial\<lparr>canvasRef := Some \<lparr>width = 300, height = 150, style_width = 0,
        style_height = 0, rect_left = 0, rect_top = 0, has2d = True\<rparr>\<rparr>)
     = Some \<lparr>width = 300, height = 150, style_width = 0,
        style_height = 0, rect_left = 0, rect_top = 0, has2d = True\<rparr>
   \<and> has2d \<lparr>width = 300, height = 150, style_width = 0,
        style_height = 0, rect_left = 0, rect_top = 0, has2d = True\<rparr>
   \<and> ((0::real) \<le> 5 \<and> (5::real) \<le> of_int \<lfloor>640.5::real\<rfloor>
        \<and> (0::real) \<le> 7 \<and> (7::real) \<le> of_int \<lfloor>480::real\<rfloor>)
   \<and> configure 640.5 480 (initial\<lparr>canvasRef := Some \<lparr>width = 300, height = 150,
        style_width = 0, style_height = 0, rect_left = 0, rect_top = 0, has2d = True\<rparr>\<rparr>)
     = \<lparr> canvasRef = Some \<lparr>width = 1280, height = 960, style_width = 640,
          style_height = 480, rect_left = 0, rect_top = 0, has2d = True\<rparr>,
         contextRef = Some \<lparr> strokeStyle = ''#000000'', fillStyle = ''#1a1a1a'', lineWidth = 1,
           lineCap = ''round'', lineJoin = ''round'', transform = (2, 2), path = [],
           rendered = [FillRect 0 0 640 480 ''#1a1a1a'' (2, 2)] \<rparr>,
         isDrawing = False, lastPoint = None, canvasSize = (640, 480), rng = 0 \<rparr>
   \<and> rectFills (FillRect 0 0 640 480 ''#1a1a1a'' (2, 2)) 5 7"
proof -
  have h1: "canvasRef (initial\<lparr>canvasRef := Some \<lparr>width = 300, height = 150, style_width = 0,
        style_height = 0, rect_left = 0, rect_top = 0, has2d = True\<rparr>\<rparr>)
     = Some \<lparr>width = 300, height = 150, style_width = 0,
        style_height = 0, rect_left = 0, rect_top = 0, has2d = True\<rparr>"
    by simp
  have h2: "has2d \<lparr>width = 300, height = 150, style_width = 0,
        style_height = 0, rect_left = 0, rect_top = 0, has2d = True\<rparr>"
    by simp
  have h3: "(0::real) \<le> 5 \<and> (5::real) \<le> of_int \<lfloor>640.5::real\<rfloor>
        \<and> (0::real) \<le> 7 \<and> (7::real) \<le> of_int \<lfloor>480::real\<rfloor>"
    by simp
  have run: "configure 640.5 480 (initial\<lparr>canvasRef := Some \<lparr>width = 300, height = 150,
        style_width = 0, style_height = 0, rect_left = 0, rect_top = 0, has2d = True\<rparr>\<rparr>)
     = \<lparr> canvasRef = Some \<lparr>width = 1280, height = 960, style_width = 640,
          style_height = 480, rect_left = 0, rect_top = 0, has2d = True\<rparr>,
         contextRef = Some \<lparr> strokeStyle = ''#000000'', fillStyle = ''#1a1a1a'', lineWidth = 1,
           lineCap = ''round'', lineJoin = ''round'', transform = (2, 2), path = [],
           rendered = [FillRect 0 0 640 480 ''#1a1a1a'' (2, 2)] \<rparr>,
         isDrawing = False, lastPoint = None, canvasSize = (640, 480), rng = 0 \<rparr>"
    by (simp add: configure_def setupCanvas_def getContext_def Let_def scale_def fillRect_def
        reset_context_def initial_def)
  from configure_repaints[OF h1 h2, of "640.5" 480] h3
  have "rectFills (last (rendered (the (contextRef (configure 640.5 480
        (initial\<lparr>canvasRef := Some \<lparr>width = 300, height = 150,
        style_width = 0, style_height = 0, rect_left = 0, rect_top = 0, has2d = True\<rparr>\<rparr>)))))) 5 7"
    by blast
  then show ?thesis using h1 h2 h3 run by simp
qed

subsection \<open>The input normalizer on an unmounted canvas\<close>

text \<open>
  Claim C10. With no mounted canvas the normalizer returns the origin for every event,
  a touch event with no contact included, and throws nothing. A move event delivered
  while drawing, and a start event, then complete normally and leave the origin in
  \<open>lastPoint\<close>.
\<close>

theorem getCoordinates_unmounted:
  assumes "canvasRef s = None"
  shows "getCoordinates s e = Inr \<lparr>px = 0, py = 0\<rparr>
     \<and> (isDrawing s \<longrightarrow>
           fst (handleMove rand props e s) = Normal
         \<and> lastPoint (snd (handleMove rand props e s)) = Some \<lparr>px = 0, py = 0\<rparr>)
     \<and> fst (handleStart rand props e s) = Normal
     \<and> lastPoint (snd (handleStart rand props e s)) = Some \<lparr>px = 0, py = 0\<rparr>"
proof -
  have g: "getCoordinates s e = Inr \<lparr>px = 0, py = 0\<rparr>"
    using assms by (simp add: getCoordinates_def)
  show ?thesis
    by (simp add: g handleMove_normal[OF _ g] handleStart_normal[OF g]
        drawSplatter_frame drawDrip_frame)
qed

theorem getCoordinates_unmounted_witness:
  "canvasRef (initial\<lparr>isDrawing := True, lastPoint := Some \<lparr>px = 3, py = 4\<rparr>\<rparr>) = None
   \<and> isDrawing (initial\<lparr>isDrawing := True, lastPoint := Some \<lparr>px = 3, py = 4\<rparr>\<rparr>)
   \<and> getCoordinates (initial\<lparr>isDrawing := True, lastPoint := Some \<lparr>px = 3, py = 4\<rparr>\<rparr>)
        (TouchEvent []) = Inr \<lparr>px = 0, py = 0\<rparr>
   \<and> handleMove (\<lambda>_. 0) \<lparr>color = ''#e63946'', tool = Brush, brushSize = 12\<rparr>
        (MouseEvent 50 10) (initial\<lparr>isDrawing := True, lastPoint := Some \<lparr>px = 3, py = 4\<rparr>\<rparr>)
     = (Normal, initial\<lparr>isDrawing := True, lastPoint := Some \<lparr>px = 0, py = 0\<rparr>\<rparr>)"
proof -
  have h1: "canvasRef (initial\<lparr>isDrawing := True, lastPoint := Some \<lparr>px = 3, py = 4\<rparr>\<rparr>) = None"
    by (simp add: initial_def)
  have h2: "isDrawing (initial\<lparr>isDrawing := True, lastPoint := Some \<lparr>px = 3, py = 4\<rparr>\<rparr>)"
    by simp
  have m: "handleMove (\<lambda>_. 0) \<lparr>color = ''#e63946'', tool = Brush, brushSize = 12\<rparr>
        (MouseEvent 50 10) (initial\<lparr>isDrawing := True, lastPoint := Some \<lparr>px = 3, py = 4\<rparr>\<rparr>)
     = (Normal, initial\<lparr>isDrawing := True, lastPoint := Some \<lparr>px = 0, py = 0\<rparr>\<rparr>)"
    by (simp add: handleMove_def getCoordinates_def drawBrushStroke_def initial_def)
  show ?thesis
    using h1 h2 m getCoordinates_unmounted[OF h1, of "TouchEvent []"]
    by simp
qed

subsection \<open>Session controller: end, start, move\<close>

lemma step_idle_invariant:
  assumes "\<not> isDrawing s \<longrightarrow> lastPoint s = None"
  shows "\<not> isDrawing (step rand a s) \<longrightarrow> lastPoint (step rand a s) = None"
proof (cases a)
  case (Mount c)
  with assms show ?thesis by simp
next
  case (Configure w h)
  with assms show ?thesis by (simp add: configure_frame)
next
  case (Start props e)
  then show ?thesis by (simp add: handleStart_isDrawing)
next
  case (Move props e)
  show ?thesis
  proof (cases "isDrawing s")
    case True
    then show ?thesis using Move by (simp add: handleMove_isDrawing)
  next
    case False
    then show ?thesis using Move assms by (simp add: handleMove_def)
  qed
next
  case End
  then show ?thesis by (simp add: handleEnd_def)
next
  case Clear
  with assms show ?thesis by (simp add: clear_frame)
qed

lemma run_idle_invariant:
  assumes "\<not> isDrawing s \<longrightarrow> lastPoint s = None"
  shows "\<not> isDrawing (run rand acts s) \<longrightarrow> lastPoint (run rand acts s) = None"
  using assms
proof (induction acts arbitrary: s)
  case Nil
  then show ?case by simp
next
  case (Cons a acts)
  from step_idle_invariant[OF Cons.prems] Cons.IH[of "step rand a s"]
  show ?case by simp
qed

text \<open>
  Claim C5. \<^verbatim>\<open>handleEnd\<close>, which is bound to interaction-end and to the pointer leaving
  the surface alike, leaves the session idle with \<open>lastPoint\<close> null. In every session
  reached from the initial one by any sequence of mounts, configures, starts, moves, ends
  and clears, an idle session has \<open>lastPoint\<close> null; each single action preserves that.
  A start event that is normalized to a point gives the same result whatever \<open>lastPoint\<close>
  held before, so nothing of an earlier session is reused.
\<close>

theorem end_resets_lastPoint:
  "\<not> isDrawing (handleEnd s) \<and> lastPoint (handleEnd s) = None
   \<and> (\<not> isDrawing (run rand acts initial) \<longrightarrow> lastPoint (run rand acts initial) = None)
   \<and> ((\<not> isDrawing s \<longrightarrow> lastPoint s = None) \<longrightarrow>
        (\<not> isDrawing (step rand a s) \<longrightarrow> lastPoint (step rand a s) = None))
   \<and> (getCoordinates s e \<noteq> Inl TypeError \<longrightarrow>
        handleStart rand props e (s\<lparr>lastPoint := stale\<rparr>) = handleStart rand props e s)"
proof -
  have init: "\<not> isDrawing initial \<longrightarrow> lastPoint initial = None"
    by (simp add: initial_def)
  have fresh: "handleStart rand props e (s\<lparr>lastPoint := stale\<rparr>) = handleStart rand props e s"
    if "getCoordinates s e \<noteq> Inl TypeError"
  proof -
    from that obtain c where c: "getCoordinates s e = Inr c"
      by (cases "getCoordinates s e") (auto intro: error.exhaust)
    then have c': "getCoordinates (s\<lparr>lastPoint := stale\<rparr>) e = Inr c"
      by (simp add: getCoordinates_def)
    show ?thesis by (simp add: handleStart_normal[OF c] handleStart_normal[OF c'])
  qed
  show ?thesis
    using run_idle_invariant[OF init, of rand acts] step_idle_invariant[of s rand a] fresh
    by (simp add: handleEnd_def)
qed

theorem end_resets_lastPoint_witness:
  "\<not> isDrawing (run (\<lambda>_. 0)
        [Start \<lparr>color = ''#e63946'', tool = Brush, brushSize = 12\<rparr> (MouseEvent 10 10),
         Move \<lparr>color = ''#e63946'', tool = Brush, brushSize = 12\<rparr> (MouseEvent 50 10), End]
        initial)
   \<and> lastPoint (run (\<lambda>_. 0)
        [Start \<lparr>color = ''#e63946'', tool = Brush, brushSize = 12\<rparr> (MouseEvent 10 10),
         Move \<lparr>color = ''#e63946'', tool = Brush, brushSize = 12\<rparr> (MouseEvent 50 10), End]
        initial) = None
   \<and> \<not> isDrawing initial \<and> lastPoint initial = None
   \<and> \<not> isDrawing (step (\<lambda>_. 0) End initial)
   \<and> lastPoint (step (\<lambda>_. 0) End initial) = None
   \<and> getCoordinates initial (MouseEvent 10 10) \<noteq> Inl TypeError
   \<and> handleStart (\<lambda>_. 0) \<lparr>color = ''#e63946'', tool = Brush, brushSize = 12\<rparr> (MouseEvent 10 10)
        (initial\<lparr>lastPoint := Some \<lparr>px = 3, py = 4\<rparr>\<rparr>)
     = (Normal, initial\<lparr>isDrawing := True, lastPoint := Some \<lparr>px = 0, py = 0\<rparr>\<rparr>)"
proof -
  have h1: "\<not> isDrawing (run (\<lambda>_. 0)
        [Start \<lparr>color = ''#e63946'', tool = Brush, brushSize = 12\<rparr> (MouseEvent 10 10),
         Move \<lparr>color = ''#e63946'', tool = Brush, brushSize = 12\<rparr> (MouseEvent 50 10), End]
        initial)"
    by (simp add: handleEnd_def)
  have h2: "\<not> isDrawing initial \<and> lastPoint initial = None"
    by (simp add: initial_def)
  have h3: "\<not> isDrawing (step (\<lambda>_. 0) End initial)"
    by (simp add: handleEnd_def)
  have h4: "getCoordinates initial (MouseEvent 10 10) \<noteq> Inl TypeError"
    by (simp add: getCoordinates_def initial_def)
  have st: "handleStart (\<lambda>_. 0) \<lparr>color = ''#e63946'', tool = Brush, brushSize = 12\<rparr>
        (MouseEvent 10 10) initial
     = (Normal, initial\<lparr>isDrawing := True, lastPoint := Some \<lparr>px = 0, py = 0\<rparr>\<rparr>)"
    by (simp add: handleStart_def getCoordinates_def initial_def)
  show ?thesis
    using h1 h2 h3 h4 st
      end_resets_lastPoint[of initial "\<lambda>_. 0"
        "[Start \<lparr>color = ''#e63946'', tool = Brush, brushSize = 12\<rparr> (MouseEvent 10 10),
          Move \<lparr>color = ''#e63946'', tool = Brush, brushSize = 12\<rparr> (MouseEvent 50 10), End]"
        End "MouseEvent 10 10" "\<lparr>color = ''#e63946'', tool = Brush, brushSize = 12\<rparr>"
        "Some \<lparr>px = 3, py = 4\<rparr>"]
    by simp
qed

text \<open>
  Claim C7. A start event that is normalized to a point \<open>c\<close> completes normally, leaves
  the session drawing and records \<open>c\<close> as \<open>lastPoint\<close>. With the splatter tool the rest
  of the handler is exactly one call of \<^verbatim>\<open>drawSplatter\<close> at \<open>c\<close>, which on a configured
  surface adds one cluster to the bitmap; with the drip tool it is exactly one call of
  \<^verbatim>\<open>drawDrip\<close> at \<open>c\<close>, which adds one blob and one teardrop; with the brush tool nothing
  else happens, and neither the context nor the canvas changes.
\<close>

theorem handleStart_effect:
  assumes "getCoordinates s e = Inr c"
  shows "fst (handleStart rand props e s) = Normal
     \<and> isDrawing (snd (handleStart rand props e s))
     \<and> lastPoint (snd (handleStart rand props e s)) = Some c
     \<and> (tool props = Splatter \<longrightarrow>
          snd (handleStart rand props e s) =
            drawSplatter rand props (px c) (py c) (s\<lparr>isDrawing := True, lastPoint := Some c\<rparr>)
        \<and> (\<forall>ctx. contextRef s = Some ctx \<longrightarrow>
              rendered (the (contextRef (snd (handleStart rand props e s)))) =
                rendered ctx @
                  map (\<lambda>j. dropletPaint rand props (px c) (py c) (transform ctx) (rng s + 1 + 3 * j))
                    [0..<nat (numDroplets rand s)]))
     \<and> (tool props = Drip \<longrightarrow>
          snd (handleStart rand props e s) =
            drawDrip rand props (px c) (py c) (s\<lparr>isDrawing := True, lastPoint := Some c\<rparr>)
        \<and> (\<forall>ctx. contextRef s = Some ctx \<longrightarrow>
              length (rendered (the (contextRef (snd (handleStart rand props e s))))) =
                length (rendered ctx) + 2
            \<and> blobRadius (rendered (the (contextRef (snd (handleStart rand props e s))))
                 ! length (rendered ctx)) = dripWidth rand props s))
     \<and> (tool props = Brush \<longrightarrow>
          snd (handleStart rand props e s) = s\<lparr>isDrawing := True, lastPoint := Some c\<rparr>
        \<and> contextRef (snd (handleStart rand props e s)) = contextRef s
        \<and> canvasRef (snd (handleStart rand props e s)) = canvasRef s)"
proof -
  have sp: "rendered (the (contextRef
              (drawSplatter rand props (px c) (py c) (s\<lparr>isDrawing := True, lastPoint := Some c\<rparr>)))) =
        rendered ctx @
          map (\<lambda>j. dropletPaint rand props (px c) (py c) (transform ctx) (rng s + 1 + 3 * j))
            [0..<nat (numDroplets rand s)]"
    if "contextRef s = Some ctx" for ctx
  proof -
    have "contextRef (s\<lparr>isDrawing := True, lastPoint := Some c\<rparr>) = Some ctx"
      using that by simp
    from drawSplatter_rendered[OF this, of rand props "px c" "py c"]
    show ?thesis by (simp add: numDroplets_def)
  qed
  have dr: "length (rendered (the (contextRef
              (drawDrip rand props (px c) (py c) (s\<lparr>isDrawing := True, lastPoint := Some c\<rparr>))))) =
          length (rendered ctx) + 2
        \<and> blobRadius (rendered (the (contextRef
              (drawDrip rand props (px c) (py c) (s\<lparr>isDrawing := True, lastPoint := Some c\<rparr>))))
            ! length (rendered ctx)) = dripWidth rand props s"
    if "contextRef s = Some ctx" for ctx
  proof -
    have "contextRef (s\<lparr>isDrawing := True, lastPoint := Some c\<rparr>) = Some ctx"
      using that by simp
    from drawDrip_context[OF this, of rand props "px c" "py c"]
    show ?thesis by (simp add: blobRadius_def dripWidth_def nth_append)
  qed
  show ?thesis
    using sp dr
    by (simp add: handleStart_normal[OF assms] drawSplatter_frame drawDrip_frame)
qed

theorem handleStart_effect_witness:
  "getCoordinates (initial\<lparr>contextRef := Some reset_context\<rparr>) (MouseEvent 100 100)
      = Inr \<lparr>px = 0, py = 0\<rparr>
   \<and> tool \<lparr>color = ''#e63946'', tool = Drip, brushSize = 12\<rparr> = Drip
   \<and> contextRef (initial\<lparr>contextRef := Some reset_context\<rparr>) = Some reset_context
   \<and> isDrawing (snd (handleStart (\<lambda>_. 0) \<lparr>color = ''#e63946'', tool = Drip, brushSize = 12\<rparr>
        (MouseEvent 100 100) (initial\<lparr>contextRef := Some reset_context\<rparr>)))
   \<and> lastPoint (snd (handleStart (\<lambda>_. 0) \<lparr>color = ''#e63946'', tool = Drip, brushSize = 12\<rparr>
        (MouseEvent 100 100) (initial\<lparr>contextRef := Some reset_context\<rparr>)))
      = Some \<lparr>px = 0, py = 0\<rparr>
   \<and> length (rendered (the (contextRef (snd (handleStart (\<lambda>_. 0)
        \<lparr>color = ''#e63946'', tool = Drip, brushSize = 12\<rparr>
        (MouseEvent 100 100) (initial\<lparr>contextRef := Some reset_context\<rparr>)))))) = 2"
proof -
  have h1: "getCoordinates (initial\<lparr>contextRef := Some reset_context\<rparr>) (MouseEvent 100 100)
      = Inr \<lparr>px = 0, py = 0\<rparr>"
    by (simp add: getCoordinates_def initial_def)
  have h2: "tool \<lparr>color = ''#e63946'', tool = Drip, brushSize = 12\<rparr> = Drip" by simp
  have h3: "contextRef (initial\<lparr>contextRef := Some reset_context\<rparr>) = Some reset_context"
    by simp
  have h4: "rendered reset_context = []" by (simp add: reset_context_def)
  note T = handleStart_effect[OF h1, of "\<lambda>_. 0"
      "\<lparr>color = ''#e63946'', tool = Drip, brushSize = 12\<rparr>"]
  have a: "isDrawing (snd (handleStart (\<lambda>_. 0) \<lparr>color = ''#e63946'', tool = Drip, brushSize = 12\<rparr>
        (MouseEvent 100 100) (initial\<lparr>contextRef := Some reset_context\<rparr>)))"
    using T by blast
  have b: "lastPoint (snd (handleStart (\<lambda>_. 0) \<lparr>color = ''#e63946'', tool = Drip, brushSize = 12\<rparr>
        (MouseEvent 100 100) (initial\<lparr>contextRef := Some reset_context\<rparr>)))
      = Some \<lparr>px = 0, py = 0\<rparr>"
    using T by blast
  have c: "length (rendered (the (contextRef (snd (handleStart (\<lambda>_. 0)
        \<lparr>color = ''#e63946'', tool = Drip, brushSize = 12\<rparr>
        (MouseEvent 100 100) (initial\<lparr>contextRef := Some reset_context\<rparr>))))))
      = length (rendered reset_context) + 2"
    using T h2 h3 by blast
  show ?thesis
    using h1 h2 h3 a b c by (simp only: h4) simp
qed

subsection \<open>Move events with the splatter and drip tools\<close>

lemma drawSplatter_grows:
  assumes "unit_source rand" and "contextRef s = Some ctx"
  shows "rendered (the (contextRef (drawSplatter rand props x y s))) \<noteq> rendered ctx"
proof -
  have "0 < nat (numDroplets rand s)"
    using numDroplets_range[OF assms(1), of s] by simp
  then have "[0..<nat (numDroplets rand s)] \<noteq> []" by simp
  then show ?thesis by (simp add: drawSplatter_rendered[OF assms(2)])
qed

lemma drawDrip_grows:
  assumes "contextRef s = Some ctx"
  shows "rendered (the (contextRef (drawDrip rand props x y s))) \<noteq> rendered ctx"
  by (simp add: drawDrip_context[OF assms])

text \<open>
  Claim C6. A move event delivered while drawing and normalized to a point \<open>c\<close>
  completes normally and leaves \<open>c\<close> in \<open>lastPoint\<close>, whatever the tool and whether or not
  anything was painted. With the splatter tool the handler takes one draw and calls
  \<^verbatim>\<open>drawSplatter\<close> at \<open>c\<close> exactly when that draw exceeds 0.7; with the drip tool it takes
  one draw and calls \<^verbatim>\<open>drawDrip\<close> at \<open>c\<close> exactly when that draw exceeds 0.9. On a
  configured surface, with a random source that stays in \<open>[0, 1)\<close>, the bitmap changes
  exactly in those cases. The draws in \<open>[0, 1)\<close> that trigger a splatter are those of the
  interval \<open>(0.7, 1)\<close>, and those that trigger a drip are those of \<open>(0.9, 1)\<close>.
\<close>

theorem handleMove_thresholds:
  assumes "isDrawing s" and "getCoordinates s e = Inr c"
  shows "fst (handleMove rand props e s) = Normal
     \<and> lastPoint (snd (handleMove rand props e s)) = Some c
     \<and> (tool props = Splatter \<longrightarrow>
          snd (handleMove rand props e s) =
            (if 0.7 < rand (rng s)
             then drawSplatter rand props (px c) (py c) (s\<lparr>rng := rng s + 1\<rparr>)
             else s\<lparr>rng := rng s + 1\<rparr>)\<lparr>lastPoint := Some c\<rparr>)
     \<and> (tool props = Drip \<longrightarrow>
          snd (handleMove rand props e s) =
            (if 0.9 < rand (rng s)
             then drawDrip rand props (px c) (py c) (s\<lparr>rng := rng s + 1\<rparr>)
             else s\<lparr>rng := rng s + 1\<rparr>)\<lparr>lastPoint := Some c\<rparr>)
     \<and> (\<forall>ctx. unit_source rand \<and> contextRef s = Some ctx \<longrightarrow>
          (tool props = Splatter \<longrightarrow>
             (rendered (the (contextRef (snd (handleMove rand props e s)))) \<noteq> rendered ctx)
               = (rand (rng s) \<in> {0.7<..<1}))
        \<and> (tool props = Drip \<longrightarrow>
             (rendered (the (contextRef (snd (handleMove rand props e s)))) \<noteq> rendered ctx)
               = (rand (rng s) \<in> {0.9<..<1})))"
proof -
  have sp: "(rendered (the (contextRef (snd (handleMove rand props e s)))) \<noteq> rendered ctx)
               = (rand (rng s) \<in> {0.7<..<1})"
    if "unit_source rand" and "contextRef s = Some ctx" and "tool props = Splatter" for ctx
  proof -
    have c: "contextRef (s\<lparr>rng := rng s + 1\<rparr>) = Some ctx" using that(2) by simp
    show ?thesis
      using drawSplatter_grows[OF that(1) c, of props "px c" "py c"]
        unit_sourceD[OF that(1), of "rng s"] that(2,3)
      by (simp add: handleMove_normal[OF assms])
  qed
  have dr: "(rendered (the (contextRef (snd (handleMove rand props e s)))) \<noteq> rendered ctx)
               = (rand (rng s) \<in> {0.9<..<1})"
    if "unit_source rand" and "contextRef s = Some ctx" and "tool props = Drip" for ctx
  proof -
    have c: "contextRef (s\<lparr>rng := rng s + 1\<rparr>) = Some ctx" using that(2) by simp
    show ?thesis
      using drawDrip_grows[OF c, of rand props "px c" "py c"]
        unit_sourceD[OF that(1), of "rng s"] that(2,3)
      by (simp add: handleMove_normal[OF assms])
  qed
  have main: "fst (handleMove rand props e s) = Normal
     \<and> lastPoint (snd (handleMove rand props e s)) = Some c
     \<and> (tool props = Splatter \<longrightarrow>
          snd (handleMove rand props e s) =
            (if 0.7 < rand (rng s)
             then drawSplatter rand props (px c) (py c) (s\<lparr>rng := rng s + 1\<rparr>)
             else s\<lparr>rng := rng s + 1\<rparr>)\<lparr>lastPoint := Some c\<rparr>)
     \<and> (tool props = Drip \<longrightarrow>
          snd (handleMove rand props e s) =
            (if 0.9 < rand (rng s)
             then drawDrip rand props (px c) (py c) (s\<lparr>rng := rng s + 1\<rparr>)
             else s\<lparr>rng := rng s + 1\<rparr>)\<lparr>lastPoint := Some c\<rparr>)"
    by (simp add: handleMove_normal[OF assms])
  show ?thesis using main sp dr by blast
qed

theorem handleMove_thresholds_witness:
  "isDrawing (initial\<lparr>contextRef := Some reset_context, isDrawing := True\<rparr>)
   \<and> getCoordinates (initial\<lparr>contextRef := Some reset_context, isDrawing := True\<rparr>)
        (MouseEvent 30 40) = Inr \<lparr>px = 0, py = 0\<rparr>
   \<and> tool \<lparr>color = ''#e63946'', tool = Drip, brushSize = 12\<rparr> = Drip
   \<and> unit_source (\<lambda>_. 0.95)
   \<and> contextRef (initial\<lparr>contextRef := Some reset_context, isDrawing := True\<rparr>)
        = Some reset_context
   \<and> (0.95::real) \<in> {0.9<..<1}
   \<and> lastPoint (snd (handleMove (\<lambda>_. 0.95) \<lparr>color = ''#e63946'', tool = Drip, brushSize = 12\<rparr>
        (MouseEvent 30 40) (initial\<lparr>contextRef := Some reset_context, isDrawing := True\<rparr>)))
      = Some \<lparr>px = 0, py = 0\<rparr>
   \<and> rendered (the (contextRef (snd (handleMove (\<lambda>_. 0.95)
        \<lparr>color = ''#e63946'', tool = Drip, brushSize = 12\<rparr>
        (MouseEvent 30 40) (initial\<lparr>contextRef := Some reset_context, isDrawing := True\<rparr>)))))
      \<noteq> rendered reset_context"
proof -
  have h1: "isDrawing (initial\<lparr>contextRef := Some reset_context, isDrawing := True\<rparr>)" by simp
  have h2: "getCoordinates (initial\<lparr>contextRef := Some reset_context, isDrawing := True\<rparr>)
        (MouseEvent 30 40) = Inr \<lparr>px = 0, py = 0\<rparr>"
    by (simp add: getCoordinates_def initial_def)
  have h3: "tool \<lparr>color = ''#e63946'', tool = Drip, brushSize = 12\<rparr> = Drip" by simp
  have h4: "unit_source (\<lambda>_. 0.95)" by (simp add: unit_source_def)
  have h5: "contextRef (initial\<lparr>contextRef := Some reset_context, isDrawing := True\<rparr>)
        = Some reset_context" by simp
  have h6: "(0.95::real) \<in> {0.9<..<1}" by simp
  note T = handleMove_thresholds[OF h1 h2, of "\<lambda>_. 0.95"
      "\<lparr>color = ''#e63946'', tool = Drip, brushSize = 12\<rparr>"]
  have a: "lastPoint (snd (handleMove (\<lambda>_. 0.95) \<lparr>color = ''#e63946'', tool = Drip, brushSize = 12\<rparr>
        (MouseEvent 30 40) (initial\<lparr>contextRef := Some reset_context, isDrawing := True\<rparr>)))
      = Some \<lparr>px = 0, py = 0\<rparr>"
    using T by blast
  have b: "(rendered (the (contextRef (snd (handleMove (\<lambda>_. 0.95)
        \<lparr>color = ''#e63946'', tool = Drip, brushSize = 12\<rparr>
        (MouseEvent 30 40) (initial\<lparr>contextRef := Some reset_context, isDrawing := True\<rparr>)))))
      \<noteq> rendered reset_context) = ((0.95::real) \<in> {0.9<..<1})"
    using T h3 h4 h5 by blast
  show ?thesis using h1 h2 h3 h4 h5 h6 a b by blast
qed

subsection \<open>Brush: the polyline of a drag\<close>

lemma getCoordinates_coordsOf:
  assumes "e \<noteq> TouchEvent []"
  shows "getCoordinates s e = Inr (coordsOf s e)"
proof (cases "canvasRef s")
  case None
  then show ?thesis by (simp add: coordsOf_def getCoordinates_def)
next
  case (Some canvas)
  show ?thesis
  proof (cases e)
    case (MouseEvent a b)
    with Some show ?thesis by (simp add: coordsOf_def getCoordinates_def)
  next
    case (TouchEvent ts)
    with assms obtain t ts' where "ts = t # ts'" by (cases ts) auto
    with Some TouchEvent show ?thesis by (simp add: coordsOf_def getCoordinates_def)
  qed
qed

lemma coordsOf_canvas: "canvasRef s' = canvasRef s \<Longrightarrow> coordsOf s' e = coordsOf s e"
  by (simp add: coordsOf_def getCoordinates_def)

lemma drawBrushStroke_context:
  assumes "contextRef s = Some ctx" and "0 < brushSize props"
  shows "contextRef (drawBrushStroke props a b s) =
     Some (ctx\<lparr> strokeStyle := color props, lineWidth := brushSize props,
                path := [MoveTo (px a) (py a), LineTo (px b) (py b)],
                rendered := rendered ctx @
                  [Stroke [MoveTo (px a) (py a), LineTo (px b) (py b)] (color props)
                     (brushSize props) (lineCap ctx) (lineJoin ctx) (transform ctx)] \<rparr>)"
  using assms
  by (simp add: drawBrushStroke_def Let_def set_lineWidth_def beginPath_def moveTo_def
      lineTo_def stroke_def)

lemma handleMove_brush:
  assumes "isDrawing s" and "lastPoint s = Some p" and "contextRef s = Some ctx"
    and "tool props = Brush" and "0 < brushSize props" and "e \<noteq> TouchEvent []"
  shows "isDrawing (snd (handleMove rand props e s))"
    and "lastPoint (snd (handleMove rand props e s)) = Some (coordsOf s e)"
    and "canvasRef (snd (handleMove rand props e s)) = canvasRef s"
    and "contextRef (snd (handleMove rand props e s)) =
     Some (ctx\<lparr> strokeStyle := color props, lineWidth := brushSize props,
                path := [MoveTo (px p) (py p), LineTo (px (coordsOf s e)) (py (coordsOf s e))],
                rendered := rendered ctx @
                  [Stroke [MoveTo (px p) (py p), LineTo (px (coordsOf s e)) (py (coordsOf s e))]
                     (color props) (brushSize props) (lineCap ctx) (lineJoin ctx)
                     (transform ctx)] \<rparr>)"
  using assms(1,2,4)
  by (simp_all add: handleMove_normal[OF assms(1) getCoordinates_coordsOf[OF assms(6)]]
      drawBrushStroke_frame drawBrushStroke_context[OF assms(3,5)])

lemma handleMoves_brush:
  assumes "isDrawing s" and "lastPoint s = Some p" and "contextRef s = Some ctx"
    and "\<forall>m \<in> set ms. tool (fst m) = Brush \<and> 0 < brushSize (fst m) \<and> snd m \<noteq> TouchEvent []"
  shows "rendered (the (contextRef (handleMoves rand ms s))) =
           rendered ctx @
             polyline (lineCap ctx) (lineJoin ctx) (transform ctx) p
               (map (\<lambda>m. (fst m, coordsOf s (snd m))) ms)
       \<and> lastPoint (handleMoves rand ms s) = Some (last (p # map (\<lambda>m. coordsOf s (snd m)) ms))"
  using assms
proof (induction ms arbitrary: s p ctx)
  case Nil
  then show ?case by simp
next
  case (Cons m ms)
  let ?s' = "snd (handleMove rand (fst m) (snd m) s)"
  let ?c = "coordsOf s (snd m)"
  let ?ctx' = "ctx\<lparr> strokeStyle := color (fst m), lineWidth := brushSize (fst m),
                path := [MoveTo (px p) (py p), LineTo (px ?c) (py ?c)],
                rendered := rendered ctx @
                  [Stroke [MoveTo (px p) (py p), LineTo (px ?c) (py ?c)]
                     (color (fst m)) (brushSize (fst m)) (lineCap ctx) (lineJoin ctx)
                     (transform ctx)] \<rparr>"
  have m: "tool (fst m) = Brush" "0 < brushSize (fst m)" "snd m \<noteq> TouchEvent []"
    using Cons.prems(4) by simp_all
  note H = handleMove_brush[OF Cons.prems(1,2,3) m, of rand]
  have rest: "\<forall>m \<in> set ms. tool (fst m) = Brush \<and> 0 < brushSize (fst m) \<and> snd m \<noteq> TouchEvent []"
    using Cons.prems(4) by simp
  have same: "coordsOf ?s' e = coordsOf s e" for e
    by (rule coordsOf_canvas[OF H(3)])
  from Cons.IH[OF H(1) H(2) H(4) rest]
  show ?case by (simp add: same)
qed

lemma polyline_segEnd:
  "map segEnd (polyline cap join tr p ms) = map (\<lambda>m. Some (snd m)) ms"
  by (induction ms arbitrary: p) (simp_all add: segEnd_def)

lemma polyline_segStart:
  "map segStart (polyline cap join tr p ms) = map Some (butlast (p # map snd ms))"
  by (induction ms arbitrary: p) (simp_all add: segStart_def)

lemma polyline_segWidth:
  "map segWidth (polyline cap join tr p ms) = map (\<lambda>m. Some (brushSize (fst m))) ms"
  by (induction ms arbitrary: p) (simp_all add: segWidth_def)

text \<open>
  Claim C1. Take a session that is drawing, with \<open>lastPoint\<close> at \<open>p\<close> and a configured
  surface, and deliver any sequence of move events under the brush tool, each with its
  own (positive) brush size and colour. Then the bitmap gains exactly one stroke per
  event, in order, and these strokes are the polyline from \<open>p\<close> through the normalized
  points of the events: the \<open>i\<close>-th stroke is the straight segment that ends at the \<open>i\<close>-th
  point and starts where the previous one ended (at \<open>p\<close> for the first), so there is no
  gap; its width is the brush size current at its event. Afterwards \<open>lastPoint\<close> is the
  last point sampled.
\<close>

theorem brush_polyline:
  assumes "isDrawing s" and "lastPoint s = Some p" and "contextRef s = Some ctx"
    and "\<forall>m \<in> set ms. tool (fst m) = Brush \<and> 0 < brushSize (fst m) \<and> snd m \<noteq> TouchEvent []"
  shows "rendered (the (contextRef (handleMoves rand ms s))) =
           rendered ctx @
             polyline (lineCap ctx) (lineJoin ctx) (transform ctx) p
               (map (\<lambda>m. (fst m, coordsOf s (snd m))) ms)
       \<and> lastPoint (handleMoves rand ms s) = Some (last (p # map (\<lambda>m. coordsOf s (snd m)) ms))
       \<and> length (rendered (the (contextRef (handleMoves rand ms s)))) =
           length (rendered ctx) + length ms
       \<and> map segEnd (drop (length (rendered ctx))
                       (rendered (the (contextRef (handleMoves rand ms s))))) =
           map (\<lambda>m. Some (coordsOf s (snd m))) ms
       \<and> map segStart (drop (length (rendered ctx))
                         (rendered (the (contextRef (handleMoves rand ms s))))) =
           map Some (butlast (p # map (\<lambda>m. coordsOf s (snd m)) ms))
       \<and> map segWidth (drop (length (rendered ctx))
                         (rendered (the (contextRef (handleMoves rand ms s))))) =
           map (\<lambda>m. Some (brushSize (fst m))) ms"
proof -
  note H = handleMoves_brush[OF assms, of rand]
  have r: "rendered (the (contextRef (handleMoves rand ms s))) =
           rendered ctx @
             polyline (lineCap ctx) (lineJoin ctx) (transform ctx) p
               (map (\<lambda>m. (fst m, coordsOf s (snd m))) ms)"
    using H by blast
  have len: "length (polyline cap join tr q xs) = length xs" for cap join tr q xs
    by (induction xs arbitrary: q) simp_all
  show ?thesis
    using H
    by (simp add: r len polyline_segEnd polyline_segStart polyline_segWidth comp_def)
qed

theorem brush_polyline_witness:
  "isDrawing (initial\<lparr>canvasRef := Some \<lparr>width = 1600, height = 1200,
       style_width = 800, style_height = 600, rect_left = 5, rect_top = 5, has2d = True\<rparr>,
       contextRef := Some reset_context, isDrawing := True,
       lastPoint := Some \<lparr>px = 10, py = 10\<rparr>\<rparr>)
   \<and> lastPoint (initial\<lparr>canvasRef := Some \<lparr>width = 1600, height = 1200,
       style_width = 800, style_height = 600, rect_left = 5, rect_top = 5, has2d = True\<rparr>,
       contextRef := Some reset_context, isDrawing := True,
       lastPoint := Some \<lparr>px = 10, py = 10\<rparr>\<rparr>) = Some \<lparr>px = 10, py = 10\<rparr>
   \<and> contextRef (initial\<lparr>canvasRef := Some \<lparr>width = 1600, height = 1200,
       style_width = 800, style_height = 600, rect_left = 5, rect_top = 5, has2d = True\<rparr>,
       contextRef := Some reset_context, isDrawing := True,
       lastPoint := Some \<lparr>px = 10, py = 10\<rparr>\<rparr>) = Some reset_context
   \<and> tool \<lparr>color = ''#e63946'', tool = Brush, brushSize = 12\<rparr> = Brush
   \<and> (0::real) < brushSize \<lparr>color = ''#e63946'', tool = Brush, brushSize = 12\<rparr>
   \<and> MouseEvent 55 15 \<noteq> TouchEvent []
   \<and> tool \<lparr>color = ''#457b9d'', tool = Brush, brushSize = 20\<rparr> = Brush
   \<and> (0::real) < brushSize \<lparr>color = ''#457b9d'', tool = Brush, brushSize = 20\<rparr>
   \<and> TouchEvent [(55, 65), (0, 0)] \<noteq> TouchEvent []
   \<and> rendered (the (contextRef (handleMoves (\<lambda>_. 0)
        [(\<lparr>color = ''#e63946'', tool = Brush, brushSize = 12\<rparr>, MouseEvent 55 15),
         (\<lparr>color = ''#457b9d'', tool = Brush, brushSize = 20\<rparr>, TouchEvent [(55, 65), (0, 0)])]
        (initial\<lparr>canvasRef := Some \<lparr>width = 1600, height = 1200,
       style_width = 800, style_height = 600, rect_left = 5, rect_top = 5, has2d = True\<rparr>,
       contextRef := Some reset_context, isDrawing := True,
       lastPoint := Some \<lparr>px = 10, py = 10\<rparr>\<rparr>))))
     = [Stroke [MoveTo 10 10, LineTo 50 10] ''#e63946'' 12 ''butt'' ''miter'' (1, 1),
        Stroke [MoveTo 50 10, LineTo 50 60] ''#457b9d'' 20 ''butt'' ''miter'' (1, 1)]
   \<and> lastPoint (handleMoves (\<lambda>_. 0)
        [(\<lparr>color = ''#e63946'', tool = Brush, brushSize = 12\<rparr>, MouseEvent 55 15),
         (\<lparr>color = ''#457b9d'', tool = Brush, brushSize = 20\<rparr>, TouchEvent [(55, 65), (0, 0)])]
        (initial\<lparr>canvasRef := Some \<lparr>width = 1600, height = 1200,
       style_width = 800, style_height = 600, rect_left = 5, rect_top = 5, has2d = True\<rparr>,
       contextRef := Some reset_context, isDrawing := True,
       lastPoint := Some \<lparr>px = 10, py = 10\<rparr>\<rparr>)) = Some \<lparr>px = 50, py = 60\<rparr>"
proof -
  have h1: "isDrawing (initial\<lparr>canvasRef := Some \<lparr>width = 1600, height = 1200,
       style_width = 800, style_height = 600, rect_left = 5, rect_top = 5, has2d = True\<rparr>,
       contextRef := Some reset_context, isDrawing := True,
       lastPoint := Some \<lparr>px = 10, py = 10\<rparr>\<rparr>)" by simp
  have h2: "lastPoint (initial\<lparr>canvasRef := Some \<lparr>width = 1600, height = 1200,
       style_width = 800, style_height = 600, rect_left = 5, rect_top = 5, has2d = True\<rparr>,
       contextRef := Some reset_context, isDrawing := True,
       lastPoint := Some \<lparr>px = 10, py = 10\<rparr>\<rparr>) = Some \<lparr>px = 10, py = 10\<rparr>" by simp
  have h3: "contextRef (initial\<lparr>canvasRef := Some \<lparr>width = 1600, height = 1200,
       style_width = 800, style_height = 600, rect_left = 5, rect_top = 5, has2d = True\<rparr>,
       contextRef := Some reset_context, isDrawing := True,
       lastPoint := Some \<lparr>px = 10, py = 10\<rparr>\<rparr>) = Some reset_context" by simp
  have h4: "\<forall>m \<in> set [(\<lparr>color = ''#e63946'', tool = Brush, brushSize = 12\<rparr>, MouseEvent 55 15),
         (\<lparr>color = ''#457b9d'', tool = Brush, brushSize = 20\<rparr>, TouchEvent [(55, 65), (0, 0)])].
        tool (fst m) = Brush \<and> 0 < brushSize (fst m) \<and> snd m \<noteq> TouchEvent []" by simp
  show ?thesis
    using h1 h2 h3 h4 brush_polyline[OF h1 h2 h3 h4, of "\<lambda>_. 0"]
    by (simp add: coordsOf_def getCoordinates_def initial_def reset_context_def)
qed

end
